theory Spec2Isabelle
  imports Complex_Main "HOL-Library.Multiset"
begin

section \<open>Rolling volatility of kline closes: a model of main.py\<close>

text \<open>
  The program fetches klines for a list of symbols, builds one pandas frame per symbol
  (closing prices, their relative changes, and the rolling standard deviation of those
  changes), keeps the latest rolling value of every symbol that has one, and ranks these
  values for a bar chart.

  Numbers. A cell of a numeric column is a \<open>real option\<close>: \<open>Some x\<close> is the finite
  number \<open>x\<close>, \<open>None\<close> is a cell without a finite number (NaN; for a computed cell also
  an infinity, which the rolling aggregation reads as NaN and which no later step of the
  program turns back into a number). Arithmetic on finite cells is exact: rounding is not
  modelled.
\<close>

type_synonym cell = "real option"
type_synonym symbol = string

subsection \<open>Provider data\<close>

text \<open>
  A row of \<open>response['result']['list']\<close> as it is delivered: a list of texts, of any
  length.
\<close>

type_synonym raw_row = "string list"

text \<open>
  A row of the frame after lines 35 and 36, under the seven column names: the timestamp
  converted to an instant, the other cells still the objects delivered, a text or \<open>None\<close>
  where the delivered row was too short to reach the column.
\<close>

record kline =
  Timestamp :: int
  Open :: "string option"
  High :: "string option"
  Low :: "string option"
  Close :: "string option"
  Volume :: "string option"
  Quote_Asset_Volume :: "string option"

text \<open>
  What \<open>session.get_kline\<close> hands back: a dictionary without the key \<open>result\<close>, one
  whose \<open>result\<close> has no key \<open>list\<close>, or one with the list of rows.
\<close>

datatype response = No_result | Result_no_list | Result_list "raw_row list"

text \<open>The call itself may raise (no connection, an error status) instead of returning.\<close>

datatype provider = Provider_raises string | Provider_returns response

text \<open>
  The exceptions that occur: whatever the provider call raises, the \<open>ValueError\<close>s that
  the program raises itself and that pandas raises on rows it cannot read, and the
  \<open>IndexError\<close> of \<open>iloc[-1]\<close> on a series without rows. \<open>str_of\<close> is the text \<open>{e}\<close>
  puts into a message.
\<close>

datatype error = ProviderError string | ValueError string | IndexError string

fun str_of :: "error \<Rightarrow> string" where
  "str_of (ProviderError m) = m"
| "str_of (ValueError m) = m"
| "str_of (IndexError m) = m"

text \<open>
  What the installed pandas does where the source leaves it to the library:
  \<open>to_numeric\<close> is \<open>pd.to_numeric(_, errors='coerce')\<close> on one cell (\<open>None\<close> where the
  cell holds no number); \<open>fill_pad\<close> says whether \<open>pct_change\<close> fills missing prices
  forward first (the default \<open>fill_method='pad'\<close> of pandas 1 and 2) or not;
  \<open>to_datetime\<close> is \<open>pd.to_datetime(_, unit='ms')\<close> on one text, the instant or the text
  of the exception raised when the text cannot be converted or is out of range;
  \<open>columns_error\<close> is the text of the exception \<open>pd.DataFrame\<close> raises when the data
  has \<open>k\<close> columns and seven names were passed.
\<close>

record pandas =
  to_numeric :: "string option \<Rightarrow> cell"
  fill_pad :: bool
  to_datetime :: "string \<Rightarrow> string + int"
  columns_error :: "nat \<Rightarrow> string"

subsection \<open>The frame\<close>

record dataframe =
  Index :: "int list"
  Open_col :: "string option list"
  High_col :: "string option list"
  Low_col :: "string option list"
  Close_col :: "cell list"
  Volume_col :: "string option list"
  Quote_Asset_Volume_col :: "string option list"
  Returns :: "cell list"
  Rolling_Std_4h :: "cell list"

subsection \<open>Column arithmetic\<close>

text \<open>
  Division of two cells as the floating-point unit does it: a zero divisor gives an
  infinity or NaN and raises nothing, so the cell holds no finite number.
\<close>

fun cell_div :: "cell \<Rightarrow> cell \<Rightarrow> cell" where
  "cell_div (Some x) (Some y) = (if y = 0 then None else Some (x / y))"
| "cell_div _ _ = None"

fun cell_minus :: "cell \<Rightarrow> cell \<Rightarrow> cell" where
  "cell_minus (Some x) (Some y) = Some (x - y)"
| "cell_minus _ _ = None"

text \<open>\<open>Series.ffill\<close>: a missing cell takes the last value seen before it, if any.\<close>

fun ffill_from :: "cell \<Rightarrow> cell list \<Rightarrow> cell list" where
  "ffill_from prev [] = []"
| "ffill_from prev (None # xs) = prev # ffill_from prev xs"
| "ffill_from prev (Some v # xs) = Some v # ffill_from (Some v) xs"

definition ffill :: "cell list \<Rightarrow> cell list" where
  "ffill xs = ffill_from None xs"

text \<open>\<open>Series.shift(1)\<close>: every value moves one row down, the first row is missing.\<close>

definition shift :: "cell list \<Rightarrow> cell list" where
  "shift xs = (if xs = [] then [] else None # butlast xs)"

text \<open>\<open>Series.pct_change()\<close>: \<open>data / data.shift(1) - 1\<close>, row by row.\<close>

definition pct_change :: "bool \<Rightarrow> cell list \<Rightarrow> cell list" where
  "pct_change pad xs =
     (let data = (if pad then ffill xs else xs)
      in map2 (\<lambda>a b. cell_minus (cell_div a b) (Some 1)) data (shift data))"

subsection \<open>Rolling standard deviation\<close>

text \<open>
  \<open>Series.rolling(window=w).std()\<close>: the window of row \<open>i\<close> holds the rows
  \<open>i - w + 1 .. i\<close> that exist; \<open>min_periods\<close> defaults to \<open>w\<close> and \<open>ddof\<close> to 1. The
  aggregation counts the finite cells of the window, and gives a number only if there are
  at least \<open>min_periods\<close> of them and more than \<open>ddof\<close>: the sum of the squared distances
  from their mean, over their count less \<open>ddof\<close>, under a square root.
\<close>

definition window_at :: "nat \<Rightarrow> nat \<Rightarrow> 'a list \<Rightarrow> 'a list" where
  "window_at w i xs = drop (Suc i - w) (take (Suc i) xs)"

fun observations :: "cell list \<Rightarrow> real list" where
  "observations [] = []"
| "observations (None # xs) = observations xs"
| "observations (Some v # xs) = v # observations xs"

definition mean :: "real list \<Rightarrow> real" where
  "mean xs = sum_list xs / real (length xs)"

definition ssqdm :: "real list \<Rightarrow> real" where
  "ssqdm xs = (\<Sum>x\<leftarrow>xs. (x - mean xs)\<^sup>2)"

definition calc_std :: "nat \<Rightarrow> nat \<Rightarrow> cell list \<Rightarrow> cell" where
  "calc_std minp ddof win =
     (let obs = observations win; nobs = length obs
      in if minp \<le> nobs \<and> ddof < nobs
         then Some (sqrt (ssqdm obs / (real nobs - real ddof)))
         else None)"

definition rolling_std :: "nat \<Rightarrow> cell list \<Rightarrow> cell list" where
  "rolling_std w xs = map (\<lambda>i. calc_std w 1 (window_at w i xs)) [0..<length xs]"

text \<open>
  The sample standard deviation as the specification words it: Bessel's correction, the
  squared deviations from the mean summed and divided by \<open>n - 1\<close>.
\<close>

definition sample_std :: "real list \<Rightarrow> real" where
  "sample_std xs =
     sqrt ((\<Sum>x\<leftarrow>xs. (x - sum_list xs / real (length xs))\<^sup>2) / (real (length xs) - 1))"

subsection \<open>Building the frame (lines 35 to 41)\<close>

text \<open>
  Line 35, \<open>pd.DataFrame(kline_data, columns=[...])\<close> with seven names. The data has as
  many columns as its longest row; shorter rows are filled up with \<open>None\<close>. A list
  without rows gives a frame without rows; otherwise the number of columns must be
  seven, or the call raises.
\<close>

definition data_columns :: "raw_row list \<Rightarrow> nat" where
  "data_columns kline_data = fold max (map length kline_data) 0"

definition object_cell :: "raw_row \<Rightarrow> nat \<Rightarrow> string option" where
  "object_cell row i = (if i < length row then Some (row ! i) else None)"

definition DataFrame :: "pandas \<Rightarrow> raw_row list \<Rightarrow> error + raw_row list" where
  "DataFrame pd kline_data =
     (if kline_data = [] then Inr []
      else if data_columns kline_data = 7 then Inr kline_data
      else Inl (ValueError (columns_error pd (data_columns kline_data))))"

text \<open>
  Line 36, \<open>pd.to_datetime(df['Timestamp'], unit='ms')\<close>: every text of the column is
  converted, and the first one that cannot be raises; a cell \<open>None\<close> becomes \<open>NaT\<close>, kept
  here as the integer pandas stores for it.
\<close>

definition NaT :: int where
  "NaT = - 9223372036854775808"

fun to_datetime_col :: "pandas \<Rightarrow> string option list \<Rightarrow> error + int list" where
  "to_datetime_col pd [] = Inr []"
| "to_datetime_col pd (None # cs) =
     (case to_datetime_col pd cs of Inl e \<Rightarrow> Inl e | Inr ts \<Rightarrow> Inr (NaT # ts))"
| "to_datetime_col pd (Some s # cs) =
     (case to_datetime pd s of
        Inl m \<Rightarrow> Inl (ValueError m)
      | Inr t \<Rightarrow>
          (case to_datetime_col pd cs of Inl e \<Rightarrow> Inl e | Inr ts \<Rightarrow> Inr (t # ts)))"

text \<open>Lines 35 and 36 together: the rows of the frame, or the exception raised.\<close>

definition frame_rows :: "pandas \<Rightarrow> raw_row list \<Rightarrow> error + kline list" where
  "frame_rows pd kline_data =
     (case DataFrame pd kline_data of
        Inl e \<Rightarrow> Inl e
      | Inr rows \<Rightarrow>
          (case to_datetime_col pd (map (\<lambda>r. object_cell r 0) rows) of
             Inl e \<Rightarrow> Inl e
           | Inr ts \<Rightarrow>
               Inr (map2 (\<lambda>t r. \<lparr> Timestamp = t, Open = object_cell r 1,
                                     High = object_cell r 2, Low = object_cell r 3,
                                     Close = object_cell r 4, Volume = object_cell r 5,
                                     Quote_Asset_Volume = object_cell r 6 \<rparr>) ts rows)))"

text \<open>
  \<open>normalize\<close> is what lines 35 to 39 make of rows that could be read: the rows taken
  in reverse (\<open>df.iloc[::-1]\<close>), the timestamps made the index, the closes read as
  numbers. The two computed columns are still empty.
\<close>

definition normalize :: "pandas \<Rightarrow> kline list \<Rightarrow> dataframe" where
  "normalize pd kline_data =
     (let rows = rev kline_data
      in \<lparr> Index = map Timestamp rows,
           Open_col = map Open rows,
           High_col = map High rows,
           Low_col = map Low rows,
           Close_col = map (\<lambda>r. to_numeric pd (Close r)) rows,
           Volume_col = map Volume rows,
           Quote_Asset_Volume_col = map Quote_Asset_Volume rows,
           Returns = [],
           Rolling_Std_4h = [] \<rparr>)"

definition analyze :: "pandas \<Rightarrow> nat \<Rightarrow> kline list \<Rightarrow> dataframe" where
  "analyze pd window_size kline_data =
     (let df = normalize pd kline_data;
          df = df\<lparr> Returns := pct_change (fill_pad pd) (Close_col df) \<rparr>
      in df\<lparr> Rolling_Std_4h := rolling_std window_size (Returns df) \<rparr>)"


subsection \<open>fetch_and_analyze_crypto_price\<close>

text \<open>
  The body of the \<open>try\<close>, with the provider's answer to this one request as an argument:
  the request raises, or the answer lacks \<open>result\<close> or \<open>result.list\<close> and the program
  raises \<open>ValueError\<close> itself, or the frame is built from the list, which raises when
  the rows cannot be read.
\<close>

fun try_fetch :: "pandas \<Rightarrow> nat \<Rightarrow> provider \<Rightarrow> error + dataframe" where
  "try_fetch pd window_size (Provider_raises cause) = Inl (ProviderError cause)"
| "try_fetch pd window_size (Provider_returns (Result_list kline_data)) =
     (case frame_rows pd kline_data of
        Inl e \<Rightarrow> Inl e
      | Inr rows \<Rightarrow> Inr (analyze pd window_size rows))"
| "try_fetch pd window_size (Provider_returns _) = Inl (ValueError ''No data returned from API.'')"

definition fetch_message :: "symbol \<Rightarrow> string \<Rightarrow> string" where
  "fetch_message symbol cause = ''Error fetching data for '' @ symbol @ '': '' @ cause"

text \<open>\<open>except Exception as e\<close>: every exception of the body leaves as a \<open>ValueError\<close>.\<close>

definition fetch_and_analyze_crypto_price ::
  "pandas \<Rightarrow> symbol \<Rightarrow> nat \<Rightarrow> provider \<Rightarrow> error + dataframe" where
  "fetch_and_analyze_crypto_price pd symbol window_size reply =
     (case try_fetch pd window_size reply of
        Inl e \<Rightarrow> Inl (ValueError (fetch_message symbol (str_of e)))
      | Inr df \<Rightarrow> Inr df)"

subsection \<open>fetch_data_and_plot\<close>

text \<open>
  A Python dictionary keeps its keys in the order of their first insertion; assigning to a
  key that is present replaces the value where it stands.
\<close>

fun setitem :: "'k \<Rightarrow> 'v \<Rightarrow> ('k \<times> 'v) list \<Rightarrow> ('k \<times> 'v) list" where
  "setitem k v [] = [(k, v)]"
| "setitem k v (p # ps) = (if fst p = k then (k, v) # ps else p # setitem k v ps)"

text \<open>\<open>series.iloc[-1]\<close>: the last row, or \<open>IndexError\<close> when there is none.\<close>

definition iloc_last :: "'a list \<Rightarrow> error + 'a" where
  "iloc_last xs =
     (if xs = [] then Inl (IndexError ''single positional indexer is out-of-bounds'')
      else Inr (last xs))"

text \<open>
  The state of the loop: the two dictionaries and the messages shown with \<open>st.error\<close>.
\<close>

record batch =
  result :: "(symbol \<times> real) list"
  dfs :: "(symbol \<times> dataframe) list"
  st_errors :: "string list"

text \<open>
  The body of the loop's \<open>try\<close> for one symbol and the provider's answer to its request.
  The call uses the default \<open>window_size=8\<close>; \<open>pd.isna\<close> is true of the cell \<open>None\<close>.
\<close>

definition try_symbol :: "pandas \<Rightarrow> batch \<Rightarrow> symbol \<times> provider \<Rightarrow> error + batch" where
  "try_symbol pd b call =
     (case fetch_and_analyze_crypto_price pd (fst call) 8 (snd call) of
        Inl e \<Rightarrow> Inl e
      | Inr df \<Rightarrow>
          (case iloc_last (Rolling_Std_4h df) of
             Inl e \<Rightarrow> Inl e
           | Inr last_rolling_std \<Rightarrow>
               (case last_rolling_std of
                  None \<Rightarrow> Inr b
                | Some v \<Rightarrow>
                    Inr (b\<lparr> result := setitem (fst call) v (result b),
                            dfs := setitem (fst call) df (dfs b) \<rparr>))))"

text \<open>One turn of the loop: the \<open>except\<close> shows the exception and goes on.\<close>

definition loop_body :: "pandas \<Rightarrow> batch \<Rightarrow> symbol \<times> provider \<Rightarrow> batch" where
  "loop_body pd b call =
     (case try_symbol pd b call of
        Inl e \<Rightarrow> b\<lparr> st_errors := st_errors b @ [fetch_message (fst call) (str_of e)] \<rparr>
      | Inr b' \<Rightarrow> b')"

fun for_symbols :: "pandas \<Rightarrow> batch \<Rightarrow> (symbol \<times> provider) list \<Rightarrow> batch" where
  "for_symbols pd b [] = b"
| "for_symbols pd b (call # calls) = for_symbols pd (loop_body pd b call) calls"

definition no_batch :: batch where
  "no_batch = \<lparr> result = [], dfs = [], st_errors = [] \<rparr>"

text \<open>
  The whole function, on the symbols paired with the provider's answers to their requests.
  With a non-empty \<open>result\<close> the charts are drawn from \<open>result\<close> (see \<open>plot_data\<close>) and
  from \<open>dfs\<close>; otherwise one more message is shown.
\<close>

definition fetch_data_and_plot :: "pandas \<Rightarrow> (symbol \<times> provider) list \<Rightarrow> batch" where
  "fetch_data_and_plot pd calls =
     (let b = for_symbols pd no_batch calls
      in if result b \<noteq> [] then b
         else b\<lparr> st_errors := st_errors b @ [''No data available to display.''] \<rparr>)"

subsection \<open>plot_data\<close>

text \<open>
  \<open>sort_values(by='Rolling_Std_4h', ascending=False)\<close> with the default
  \<open>kind='quicksort'\<close>: the rows come out in non-increasing order of the value. pandas
  documents only \<open>mergesort\<close> and \<open>stable\<close> as stable, so the call fixes no order among
  rows of equal value, and the model is the relation between the frame and every
  outcome the call allows.
\<close>

definition sort_values :: "(symbol \<times> real) list \<Rightarrow> (symbol \<times> real) list \<Rightarrow> bool" where
  "sort_values rows sorted_rows \<longleftrightarrow>
     mset sorted_rows = mset rows \<and> sorted_wrt (\<lambda>a b. snd b \<le> snd a) sorted_rows"

text \<open>\<open>Series.max()\<close> and \<open>Series.min()\<close>; NaN on a column without rows.\<close>

fun col_max :: "real list \<Rightarrow> cell" where
  "col_max [] = None"
| "col_max (v # vs) = Some (fold max vs v)"

fun col_min :: "real list \<Rightarrow> cell" where
  "col_min [] = None"
| "col_min (v # vs) = Some (fold min vs v)"

text \<open>Lines 92 to 94: the column \<open>Color\<close> added to the sorted frame.\<close>

definition add_color :: "(symbol \<times> real) list \<Rightarrow> (symbol \<times> real \<times> cell) list" where
  "add_color df_plot =
     (let max_std = col_max (map snd df_plot);
          min_std = col_min (map snd df_plot)
      in map (\<lambda>(s, v). (s, v, cell_div (cell_minus (Some v) min_std) (cell_minus max_std min_std)))
           df_plot)"

text \<open>
  The rows of the bar chart (symbol, value, colour), in the order drawn: some outcome of
  the sort with its colour column.
\<close>

definition plot_data :: "(symbol \<times> real) list \<Rightarrow> (symbol \<times> real \<times> cell) list \<Rightarrow> bool" where
  "plot_data data chart \<longleftrightarrow>
     sort_values data (map (\<lambda>(s, v, c). (s, v)) chart) \<and>
     chart = add_color (map (\<lambda>(s, v, c). (s, v)) chart)"

subsection \<open>Example data\<close>

text \<open>
  A row of the frame whose price cells all carry the same text; a pandas that reads the
  few numerals the examples use; nine rows newest first, all closing at 1, as the
  provider sends them and as the frame holds them; two rows, too few for a window of
  eight.
\<close>

definition candle :: "int \<Rightarrow> string \<Rightarrow> kline" where
  "candle t c = \<lparr> Timestamp = t, Open = Some c, High = Some c, Low = Some c, Close = Some c,
                  Volume = Some ''0'', Quote_Asset_Volume = Some ''0'' \<rparr>"

definition count_text :: "nat \<Rightarrow> string" where
  "count_text k =
     (if k = 0 then ''0'' else if k = 1 then ''1'' else if k = 2 then ''2''
      else if k = 3 then ''3'' else if k = 4 then ''4'' else if k = 5 then ''5''
      else if k = 6 then ''6'' else if k = 7 then ''7'' else if k = 8 then ''8''
      else if k = 9 then ''9''
      else ''more'')"

definition example_pandas :: pandas where
  "example_pandas =
     \<lparr> to_numeric = (\<lambda>s. if s = Some ''1'' then Some 1 else if s = Some ''2'' then Some 2
                         else if s = Some ''4'' then Some 4 else None),
       fill_pad = True,
       to_datetime = (\<lambda>s. if s = ''1'' then Inr 1 else if s = ''2'' then Inr 2
                          else if s = ''3'' then Inr 3 else if s = ''4'' then Inr 4
                          else if s = ''5'' then Inr 5 else if s = ''6'' then Inr 6
                          else if s = ''7'' then Inr 7 else if s = ''8'' then Inr 8
                          else if s = ''9'' then Inr 9
                          else Inl (''cannot convert '' @ s)),
       columns_error = (\<lambda>k. ''7 columns passed, passed data had '' @ count_text k
                            @ '' columns'') \<rparr>"

definition raw_candle :: "string \<Rightarrow> string \<Rightarrow> raw_row" where
  "raw_candle t c = [t, c, c, c, c, ''0'', ''0'']"

definition flat_rows :: "raw_row list" where
  "flat_rows = map (\<lambda>t. raw_candle t ''1'')
     [''9'', ''8'', ''7'', ''6'', ''5'', ''4'', ''3'', ''2'', ''1'']"

definition flat_klines :: "kline list" where
  "flat_klines = map (\<lambda>t. candle t ''1'') [9, 8, 7, 6, 5, 4, 3, 2, 1]"

definition short_rows :: "raw_row list" where
  "short_rows = [raw_candle ''2'' ''2'', raw_candle ''1'' ''1'']"

section \<open>Properties\<close>

subsection \<open>Windows\<close>

lemma length_observations_le: "length (observations xs) \<le> length xs"
  by (induction xs rule: observations.induct) auto

lemma observations_all_defined:
  "None \<notin> set xs \<Longrightarrow> observations xs = map the xs"
  by (induction xs rule: observations.induct) auto

lemma observations_full_iff:
  "length (observations xs) = length xs \<longleftrightarrow> None \<notin> set xs"
proof (induction xs rule: observations.induct)
  case (2 xs)
  have "length (observations xs) \<le> length xs" by (rule length_observations_le)
  then show ?case by simp
qed auto

lemma window_at_nth:
  assumes "i < length xs"
  shows "window_at w i xs = map (\<lambda>k. xs ! k) [Suc i - w ..< Suc i]"
proof -
  have "take (Suc i) xs = map (\<lambda>k. xs ! k) [0 ..< Suc i]"
    using assms by (intro nth_equalityI) (simp_all del: upt_Suc)
  then have "window_at w i xs = drop (Suc i - w) (map (\<lambda>k. xs ! k) [0 ..< Suc i])"
    by (simp add: window_at_def)
  also have "\<dots> = map (\<lambda>k. xs ! k) (drop (Suc i - w) [0 ..< Suc i])"
    by (simp only: drop_map)
  also have "drop (Suc i - w) [0 ..< Suc i] = [Suc i - w ..< Suc i]"
    by (simp only: drop_upt) simp
  finally show ?thesis .
qed

lemma length_window_at:
  "i < length xs \<Longrightarrow> length (window_at w i xs) = Suc i - (Suc i - w)"
  by (simp add: window_at_def min_absorb2)

lemma sample_std_ssqdm: "sample_std xs = sqrt (ssqdm xs / (real (length xs) - real (Suc 0)))"
  by (simp add: sample_std_def ssqdm_def mean_def)

lemma none_image_iff: "None \<notin> f ` S \<longleftrightarrow> (\<forall>k\<in>S. f k \<noteq> None)"
  by (metis image_iff)

lemma none_window_iff:
  assumes "i < length rs"
  shows "None \<notin> set (window_at w i rs) \<longleftrightarrow> (\<forall>k. i + 1 - w \<le> k \<and> k \<le> i \<longrightarrow> rs ! k \<noteq> None)"
proof -
  have "set (window_at w i rs) = (\<lambda>k. rs ! k) ` {Suc i - w ..< Suc i}"
    using assms by (simp add: window_at_nth del: upt_Suc)
  also have "{Suc i - w ..< Suc i} = {k. i + 1 - w \<le> k \<and> k \<le> i}"
    by auto
  finally have "set (window_at w i rs) = (\<lambda>k. rs ! k) ` {k. i + 1 - w \<le> k \<and> k \<le> i}" .
  then have "None \<notin> set (window_at w i rs) \<longleftrightarrow>
      (\<forall>k\<in>{k. i + 1 - w \<le> k \<and> k \<le> i}. rs ! k \<noteq> None)"
    by (simp only: none_image_iff)
  then show ?thesis by simp
qed

lemma calc_std_full:
  assumes "2 \<le> w" "length win = w" "None \<notin> set win"
  shows "calc_std w 1 win = Some (sample_std (map the win))"
proof -
  have obs: "observations win = map the win"
    using assms(3) by (rule observations_all_defined)
  have "calc_std w 1 win = Some (sqrt (ssqdm (map the win) / (real w - real (Suc 0))))"
    unfolding calc_std_def Let_def obs using assms(1,2) by simp
  also have "\<dots> = Some (sample_std (map the win))"
    unfolding sample_std_ssqdm using assms(2) by simp
  finally show ?thesis .
qed

lemma calc_std_short:
  assumes "length (observations win) < w"
  shows "calc_std w 1 win = None"
  unfolding calc_std_def Let_def using assms by simp

lemma rolling_std_nth:
  assumes w: "2 \<le> w" and i: "i < length rs"
  shows "rolling_std w rs ! i =
     (if w - 1 \<le> i \<and> (\<forall>k. i + 1 - w \<le> k \<and> k \<le> i \<longrightarrow> rs ! k \<noteq> None)
      then Some (sample_std (map (\<lambda>k. the (rs ! k)) [i + 1 - w ..< i + 1]))
      else None)"
proof -
  let ?win = "window_at w i rs"
  have nth: "rolling_std w rs ! i = calc_std w 1 ?win"
    using i by (simp add: rolling_std_def del: upt_Suc)
  have len: "length ?win = Suc i - (Suc i - w)"
    using i by (rule length_window_at)
  have le: "length (observations ?win) \<le> length ?win"
    by (rule length_observations_le)
  note none_iff = none_window_iff [OF i, of w]
  show ?thesis
  proof (cases "w - 1 \<le> i \<and> (\<forall>k. i + 1 - w \<le> k \<and> k \<le> i \<longrightarrow> rs ! k \<noteq> None)")
    case True
    then have full: "None \<notin> set ?win" using none_iff by blast
    from True w have "Suc i - (Suc i - w) = w" by arith
    with len have lw: "length ?win = w" by simp
    have "map the ?win = map (\<lambda>k. the (rs ! k)) [Suc i - w ..< Suc i]"
      unfolding window_at_nth [OF i] by (simp only: map_map comp_def)
    then have "calc_std w 1 ?win = Some (sample_std (map (\<lambda>k. the (rs ! k)) [Suc i - w ..< Suc i]))"
      using calc_std_full [OF w lw full] by simp
    with True nth show ?thesis by (simp del: upt_Suc)
  next
    case False
    have "length (observations ?win) < w"
    proof (cases "w - 1 \<le> i")
      case True
      with False have "None \<in> set ?win" using none_iff by blast
      then have "length (observations ?win) \<noteq> length ?win"
        using observations_full_iff by blast
      with le have "length (observations ?win) < length ?win" by simp
      moreover have "Suc i - (Suc i - w) \<le> w" by arith
      ultimately show ?thesis using len by simp
    next
      case False
      then have "Suc i - (Suc i - w) < w" using w by arith
      then have "length ?win < w" using len by simp
      with le show ?thesis by simp
    qed
    then have "calc_std w 1 ?win = None" by (rule calc_std_short)
    with False nth show ?thesis by (simp del: upt_Suc)
  qed
qed

subsection \<open>The columns of the frame\<close>

lemma length_ffill_from: "length (ffill_from prev xs) = length xs"
  by (induction prev xs rule: ffill_from.induct) auto

lemma length_shift: "length (shift xs) = length xs"
  by (simp add: shift_def)

lemma length_pct_change: "length (pct_change pad xs) = length xs"
  by (simp add: pct_change_def Let_def ffill_def length_ffill_from length_shift)

lemma length_rolling_std: "length (rolling_std w xs) = length xs"
  by (simp add: rolling_std_def)

lemma Index_analyze: "Index (analyze pd w ks) = rev (map Timestamp ks)"
  by (simp add: analyze_def normalize_def Let_def rev_map)

lemma Returns_analyze:
  "Returns (analyze pd w ks) = pct_change (fill_pad pd) (map (\<lambda>r. to_numeric pd (Close r)) (rev ks))"
  by (simp add: analyze_def normalize_def Let_def)

lemma Rolling_analyze:
  "Rolling_Std_4h (analyze pd w ks) = rolling_std w (Returns (analyze pd w ks))"
  by (simp add: analyze_def normalize_def Let_def)

lemma length_Returns_analyze: "length (Returns (analyze pd w ks)) = length ks"
  by (simp add: Returns_analyze length_pct_change)

lemma cell_div_None: "cell_div a None = None"
  by (cases a) simp_all

lemma hd_pct_change:
  assumes "xs \<noteq> []"
  shows "pct_change pad xs ! 0 = None"
proof -
  define data where "data = (if pad then ffill xs else xs)"
  have "length data = length xs"
    by (simp add: data_def ffill_def length_ffill_from)
  with assms obtain a as where "data = a # as"
    by (cases data) auto
  then have "map2 (\<lambda>a b. cell_minus (cell_div a b) (Some 1)) data (shift data) ! 0 = None"
    by (simp add: shift_def cell_div_None)
  then show ?thesis
    by (simp add: pct_change_def Let_def data_def)
qed

text \<open>
  C1. In the frame built with a window of at least 2, the rolling value of row \<open>i\<close> is
  the sample standard deviation (divisor \<open>n - 1\<close>) of the \<open>window_size\<close> entries of
  \<open>Returns\<close> that end at row \<open>i\<close>; it is a number exactly when \<open>i \<ge> window_size - 1\<close>
  and each of these entries is a number, and missing otherwise.
\<close>

theorem rolling_volatility_is_sample_std:
  assumes "2 \<le> window_size"
    and "df = analyze pd window_size kline_data"
    and "i < length (Index df)"
  shows "Rolling_Std_4h df ! i =
     (if window_size - 1 \<le> i \<and>
         (\<forall>k. i + 1 - window_size \<le> k \<and> k \<le> i \<longrightarrow> Returns df ! k \<noteq> None)
      then Some (sample_std (map (\<lambda>k. the (Returns df ! k)) [i + 1 - window_size ..< i + 1]))
      else None)"
proof -
  have "i < length (Returns df)"
    using assms(2,3) by (simp add: Index_analyze length_Returns_analyze)
  then show ?thesis
    unfolding assms(2) Rolling_analyze using assms(1) by (rule rolling_std_nth [rotated])
qed

subsection \<open>Evaluated examples\<close>

lemma ex_returns: "Returns (analyze example_pandas 2 [candle 3 ''4'', candle 2 ''2'', candle 1 ''1'']) = [None, Some 1, Some 1]"
  by (simp add: Returns_analyze pct_change_def example_pandas_def candle_def ffill_def shift_def Let_def)


lemma flat_returns:
  "Returns (analyze example_pandas 8 flat_klines) =
     [None, Some 0, Some 0, Some 0, Some 0, Some 0, Some 0, Some 0, Some 0]"
  by (simp add: Returns_analyze pct_change_def example_pandas_def candle_def ffill_def shift_def
      flat_klines_def Let_def)

lemma flat_rolling_last:
  "iloc_last (Rolling_Std_4h (analyze example_pandas 8 flat_klines)) = Inr (Some 0)"
  unfolding Rolling_analyze flat_returns
  by (simp add: iloc_last_def rolling_std_def calc_std_def window_at_def ssqdm_def mean_def Let_def)

subsection \<open>The claims about one frame\<close>

text \<open>C1 on three rows with a window of 2: the third rolling value is there.\<close>

theorem rolling_volatility_is_sample_std_witness:
  "(2::nat) \<le> 2 \<and>
   2 < length (Index (analyze example_pandas 2 [candle 3 ''4'', candle 2 ''2'', candle 1 ''1''])) \<and>
   Rolling_Std_4h (analyze example_pandas 2 [candle 3 ''4'', candle 2 ''2'', candle 1 ''1'']) ! 2
     = Some (sample_std [1, 1])"
proof -
  let ?df = "analyze example_pandas 2 [candle 3 ''4'', candle 2 ''2'', candle 1 ''1'']"
  have h1: "(2::nat) \<le> 2" by simp
  have h3: "2 < length (Index ?df)" by (simp add: Index_analyze)
  have "\<forall>k. 2 + 1 - 2 \<le> k \<and> k \<le> 2 \<longrightarrow> Returns ?df ! k \<noteq> None"
  proof (intro allI impI)
    fix k :: nat
    assume "2 + 1 - 2 \<le> k \<and> k \<le> 2"
    then have "k = 1 \<or> k = 2" by arith
    then show "Returns ?df ! k \<noteq> None" by (auto simp: ex_returns)
  qed
  moreover have "[2 + 1 - 2 ..< 2 + 1] = [1, 2::nat]"
    by code_simp
  ultimately have "Rolling_Std_4h ?df ! 2 = Some (sample_std [1, 1])"
    using rolling_volatility_is_sample_std [OF h1 refl h3] by (simp add: ex_returns)
  with h1 h3 show ?thesis by blast
qed

text \<open>
  C8, as the code has it. \<open>Returns\<close> and \<open>Rolling_Std_4h\<close> are columns of the frame that
  holds the prices, so both have as many rows as the price series, not one fewer; the
  return of the first row is always missing.
\<close>

theorem computed_columns_keep_length:
  "length (Index (analyze pd w ks)) = length ks \<and>
   length (Returns (analyze pd w ks)) = length ks \<and>
   length (Rolling_Std_4h (analyze pd w ks)) = length ks \<and>
   (ks \<noteq> [] \<longrightarrow> Returns (analyze pd w ks) ! 0 = None)"
  by (simp add: Index_analyze Rolling_analyze length_rolling_std Returns_analyze
      length_pct_change hd_pct_change)

text \<open>C8 on two rows: two returns, the first one missing.\<close>

theorem computed_columns_keep_length_witness:
  "[candle 2 ''2'', candle 1 ''1''] \<noteq> [] \<and>
   length (Returns (analyze example_pandas 8 [candle 2 ''2'', candle 1 ''1''])) = 2 \<and>
   Returns (analyze example_pandas 8 [candle 2 ''2'', candle 1 ''1'']) ! 0 = None"
  using computed_columns_keep_length [of example_pandas 8 "[candle 2 ''2'', candle 1 ''1'']"]
  by simp

text \<open>
  C8 as the specification words it fails: two prices give two rows of returns and of
  rolling values, not one.
\<close>

theorem returns_one_shorter_counterexample:
  "length (Index (analyze example_pandas 8 [candle 2 ''2'', candle 1 ''1''])) = 2 \<and>
   length (Returns (analyze example_pandas 8 [candle 2 ''2'', candle 1 ''1''])) \<noteq> 2 - 1 \<and>
   length (Rolling_Std_4h (analyze example_pandas 8 [candle 2 ''2'', candle 1 ''1''])) \<noteq> 2 - 1"
  by (simp add: Index_analyze Rolling_analyze length_rolling_std length_Returns_analyze)

subsection \<open>Row order\<close>

lemma Index_normalize: "Index (normalize pd ks) = rev (map Timestamp ks)"
  by (simp add: normalize_def Let_def rev_map)

text \<open>
  C3, as the code has it. \<open>normalize\<close> keeps every row and takes the rows in the reverse of
  the order delivered; it neither sorts nor removes rows with a repeated timestamp. Its
  index is strictly ascending (and so free of duplicates) exactly when the provider
  delivered strictly descending timestamps.
\<close>

theorem normalize_reverses_delivery:
  "Index (normalize pd ks) = rev (map Timestamp ks) \<and>
   Close_col (normalize pd ks) = rev (map (\<lambda>r. to_numeric pd (Close r)) ks) \<and>
   (sorted_wrt (<) (Index (normalize pd ks)) \<longleftrightarrow> sorted_wrt (>) (map Timestamp ks))"
  by (simp add: Index_normalize sorted_wrt_rev) (simp add: normalize_def Let_def rev_map)

text \<open>
  C3 as the specification words it fails: rows delivered oldest first come out newest
  first, and a timestamp delivered twice stays twice.
\<close>

theorem normalize_sorts_counterexample:
  "\<not> sorted_wrt (<) (Index (normalize example_pandas [candle 1 ''1'', candle 2 ''2''])) \<and>
   \<not> distinct (Index (normalize example_pandas [candle 2 ''2'', candle 2 ''4'', candle 1 ''1'']))"
  by (simp add: Index_normalize candle_def)

lemma strict_palindrome_short:
  fixes ts :: "int list"
  assumes "sorted_wrt (<) ts" and "rev ts = ts"
  shows "length ts \<le> 1"
proof (cases ts)
  case Nil
  then show ?thesis by simp
next
  case (Cons a as)
  have "sorted_wrt (<) (rev ts)" using assms by simp
  then have down: "sorted_wrt (>) ts" by (simp add: sorted_wrt_rev)
  have "as = []"
  proof (rule ccontr)
    assume "as \<noteq> []"
    then obtain y where y: "y \<in> set as" by (cases as) auto
    with assms(1) Cons have "a < y" by simp
    moreover from y down Cons have "y < a" by simp
    ultimately show False by simp
  qed
  with Cons show ?thesis by simp
qed

text \<open>
  C9, as the code has it. On rows that are already strictly ascending by timestamp,
  \<open>normalize\<close> gives back the same order exactly when there is at most one row; any
  longer ascending input comes out reversed.
\<close>

theorem normalize_fixed_point_iff:
  assumes "sorted_wrt (<) (map Timestamp ks)"
  shows "Index (normalize pd ks) = map Timestamp ks \<longleftrightarrow> length ks \<le> 1"
proof
  assume "Index (normalize pd ks) = map Timestamp ks"
  then have "rev (map Timestamp ks) = map Timestamp ks" by (simp add: Index_normalize)
  with assms have "length (map Timestamp ks) \<le> 1" by (rule strict_palindrome_short)
  then show "length ks \<le> 1" by simp
next
  assume "length ks \<le> 1"
  then have "rev ks = ks" by (cases ks) auto
  then have "rev (map Timestamp ks) = map Timestamp ks" by (simp only: rev_map)
  then show "Index (normalize pd ks) = map Timestamp ks"
    by (simp only: Index_normalize)
qed

text \<open>C9 on a single row.\<close>

theorem normalize_fixed_point_iff_witness:
  "sorted_wrt (<) (map Timestamp [candle 1 ''1'']) \<and>
   Index (normalize example_pandas [candle 1 ''1'']) = map Timestamp [candle 1 ''1'']"
  using normalize_fixed_point_iff [of "[candle 1 ''1'']" example_pandas] by simp

text \<open>
  C9 as the specification words it fails: two rows in ascending order are not a fixed
  point.
\<close>

theorem normalize_idempotent_counterexample:
  "sorted_wrt (<) (map Timestamp [candle 1 ''1'', candle 2 ''2'']) \<and>
   Index (normalize example_pandas [candle 1 ''1'', candle 2 ''2''])
     \<noteq> map Timestamp [candle 1 ''1'', candle 2 ''2'']"
  by (simp add: Index_normalize candle_def)

subsection \<open>One turn of the loop\<close>

lemma loop_body_raises:
  assumes "fetch_and_analyze_crypto_price pd s 8 reply = Inl e"
  shows "loop_body pd b (s, reply) = b\<lparr> st_errors := st_errors b @ [fetch_message s (str_of e)] \<rparr>"
  using assms by (simp add: loop_body_def try_symbol_def)

lemma loop_body_no_rows:
  assumes "fetch_and_analyze_crypto_price pd s 8 reply = Inr df" and "Rolling_Std_4h df = []"
  shows "loop_body pd b (s, reply) =
    b\<lparr> st_errors := st_errors b @ [fetch_message s ''single positional indexer is out-of-bounds''] \<rparr>"
  using assms by (simp add: loop_body_def try_symbol_def iloc_last_def)

lemma loop_body_missing:
  assumes "fetch_and_analyze_crypto_price pd s 8 reply = Inr df"
    and "iloc_last (Rolling_Std_4h df) = Inr None"
  shows "loop_body pd b (s, reply) = b"
  using assms by (simp add: loop_body_def try_symbol_def)

lemma loop_body_defined:
  assumes "fetch_and_analyze_crypto_price pd s 8 reply = Inr df"
    and "iloc_last (Rolling_Std_4h df) = Inr (Some v)"
  shows "loop_body pd b (s, reply) =
    b\<lparr> result := setitem s v (result b), dfs := setitem s df (dfs b) \<rparr>"
  using assms by (simp add: loop_body_def try_symbol_def)

text \<open>The four cases are all there are.\<close>

lemma loop_body_cases:
  obtains (raises) e where "fetch_and_analyze_crypto_price pd s 8 reply = Inl e"
  | (no_rows) df where "fetch_and_analyze_crypto_price pd s 8 reply = Inr df"
      "Rolling_Std_4h df = []"
  | (missing) df where "fetch_and_analyze_crypto_price pd s 8 reply = Inr df"
      "iloc_last (Rolling_Std_4h df) = Inr None"
  | (defined) df v where "fetch_and_analyze_crypto_price pd s 8 reply = Inr df"
      "iloc_last (Rolling_Std_4h df) = Inr (Some v)"
proof (cases "fetch_and_analyze_crypto_price pd s 8 reply")
  case (Inl e)
  then show ?thesis by (rule raises)
next
  case (Inr df)
  show ?thesis
  proof (cases "Rolling_Std_4h df = []")
    case True
    with Inr show ?thesis by (rule no_rows)
  next
    case False
    then have "iloc_last (Rolling_Std_4h df) = Inr (last (Rolling_Std_4h df))"
      by (simp add: iloc_last_def)
    with Inr show ?thesis
      by (cases "last (Rolling_Std_4h df)") (auto intro: missing defined)
  qed
qed

lemma result_loop_body_cong:
  assumes "result b = result b'"
  shows "result (loop_body pd b c) = result (loop_body pd b' c)"
proof (cases c)
  case (Pair s reply)
  show ?thesis unfolding Pair
    by (cases pd s reply rule: loop_body_cases)
      (simp_all add: loop_body_raises loop_body_no_rows loop_body_missing loop_body_defined assms)
qed

lemma dfs_loop_body_cong:
  assumes "dfs b = dfs b'"
  shows "dfs (loop_body pd b c) = dfs (loop_body pd b' c)"
proof (cases c)
  case (Pair s reply)
  show ?thesis unfolding Pair
    by (cases pd s reply rule: loop_body_cases)
      (simp_all add: loop_body_raises loop_body_no_rows loop_body_missing loop_body_defined assms)
qed

lemma st_errors_loop_body:
  "st_errors (loop_body pd b c) = st_errors b @ st_errors (loop_body pd no_batch c)"
proof (cases c)
  case (Pair s reply)
  show ?thesis unfolding Pair
    by (cases pd s reply rule: loop_body_cases)
      (simp_all add: loop_body_raises loop_body_no_rows loop_body_missing loop_body_defined
        no_batch_def)
qed

subsection \<open>The loop\<close>

lemma for_symbols_append:
  "for_symbols pd b (xs @ ys) = for_symbols pd (for_symbols pd b xs) ys"
  by (induction xs arbitrary: b) simp_all

lemma result_for_symbols_cong:
  "result b = result b' \<Longrightarrow> result (for_symbols pd b cs) = result (for_symbols pd b' cs)"
proof (induction cs arbitrary: b b')
  case Nil
  then show ?case by simp
next
  case (Cons c cs)
  from Cons.prems have "result (loop_body pd b c) = result (loop_body pd b' c)"
    by (rule result_loop_body_cong)
  then have "result (for_symbols pd (loop_body pd b c) cs)
      = result (for_symbols pd (loop_body pd b' c) cs)"
    by (rule Cons.IH)
  then show ?case by simp
qed

lemma dfs_for_symbols_cong:
  "dfs b = dfs b' \<Longrightarrow> dfs (for_symbols pd b cs) = dfs (for_symbols pd b' cs)"
proof (induction cs arbitrary: b b')
  case Nil
  then show ?case by simp
next
  case (Cons c cs)
  from Cons.prems have "dfs (loop_body pd b c) = dfs (loop_body pd b' c)"
    by (rule dfs_loop_body_cong)
  then have "dfs (for_symbols pd (loop_body pd b c) cs)
      = dfs (for_symbols pd (loop_body pd b' c) cs)"
    by (rule Cons.IH)
  then show ?case by simp
qed

lemma st_errors_for_symbols:
  "st_errors (for_symbols pd b cs) = st_errors b @ st_errors (for_symbols pd no_batch cs)"
proof (induction cs arbitrary: b)
  case Nil
  then show ?case by (simp add: no_batch_def)
next
  case (Cons c cs)
  have "st_errors (for_symbols pd (loop_body pd b c) cs)
      = st_errors (loop_body pd b c) @ st_errors (for_symbols pd no_batch cs)"
    by (rule Cons.IH)
  also have "\<dots> = st_errors b @ st_errors (loop_body pd no_batch c)
      @ st_errors (for_symbols pd no_batch cs)"
    by (simp add: st_errors_loop_body [of pd b c])
  also have "st_errors (loop_body pd no_batch c) @ st_errors (for_symbols pd no_batch cs)
      = st_errors (for_symbols pd (loop_body pd no_batch c) cs)"
    by (rule Cons.IH [symmetric])
  finally show ?case by simp
qed

lemma result_fetch_data_and_plot:
  "result (fetch_data_and_plot pd cs) = result (for_symbols pd no_batch cs)"
  by (simp add: fetch_data_and_plot_def Let_def)

lemma dfs_fetch_data_and_plot:
  "dfs (fetch_data_and_plot pd cs) = dfs (for_symbols pd no_batch cs)"
  by (simp add: fetch_data_and_plot_def Let_def)

lemma st_errors_fetch_data_and_plot:
  "st_errors (fetch_data_and_plot pd cs) =
     st_errors (for_symbols pd no_batch cs)
     @ (if result (for_symbols pd no_batch cs) \<noteq> [] then []
        else [''No data available to display.''])"
  by (simp add: fetch_data_and_plot_def Let_def)

subsection \<open>The chart of a result\<close>

lemma rows_of_add_color: "map (\<lambda>(s, v, c). (s, v)) (add_color rows) = rows"
  by (simp add: add_color_def Let_def case_prod_beta comp_def)

text \<open>Whatever the result holds, the sort has an outcome and the chart can be drawn.\<close>

lemma plot_data_total: "\<exists>chart. plot_data data chart"
proof -
  let ?rows = "rev (sort_key snd data)"
  have "sorted (map snd (sort_key snd data))"
    by (rule sorted_sort_key)
  then have "sorted_wrt (\<lambda>a b. snd a \<le> snd b) (sort_key snd data)"
    by (simp only: sorted_wrt_map)
  then have "sorted_wrt (\<lambda>a b. snd b \<le> snd a) ?rows"
    by (simp only: sorted_wrt_rev)
  moreover have "mset ?rows = mset data"
    by simp
  ultimately have "sort_values data ?rows"
    by (simp only: sort_values_def simp_thms)
  then have "plot_data data (add_color ?rows)"
    by (simp only: plot_data_def rows_of_add_color simp_thms)
  then show ?thesis ..
qed

subsection \<open>Reading the rows\<close>

lemma to_datetime_col_raises_iff:
  "(\<exists>e. to_datetime_col pd cs = Inl e) \<longleftrightarrow>
     (\<exists>t m. Some t \<in> set cs \<and> to_datetime pd t = Inl m)"
proof (induction pd cs rule: to_datetime_col.induct)
  case (1 pd)
  show ?case by simp
next
  case (2 pd cs)
  then show ?case by (auto split: sum.splits)
next
  case (3 pd s cs)
  show ?case
  proof (cases "to_datetime pd s")
    case (Inl m)
    then show ?thesis by auto
  next
    case (Inr t)
    with 3 show ?thesis by (auto split: sum.splits)
  qed
qed

lemma frame_rows_raises_iff:
  "(\<exists>e. frame_rows pd rows = Inl e) \<longleftrightarrow>
     rows \<noteq> [] \<and>
     (data_columns rows \<noteq> 7 \<or>
      (\<exists>r t m. r \<in> set rows \<and> object_cell r 0 = Some t \<and> to_datetime pd t = Inl m))"
proof (cases "rows = []")
  case True
  then show ?thesis by (simp add: frame_rows_def DataFrame_def)
next
  case False
  show ?thesis
  proof (cases "data_columns rows = 7")
    case wide: False
    with False show ?thesis by (simp add: frame_rows_def DataFrame_def)
  next
    case True
    have "(\<exists>e. frame_rows pd rows = Inl e) \<longleftrightarrow>
        (\<exists>e. to_datetime_col pd (map (\<lambda>r. object_cell r 0) rows) = Inl e)"
      using False True by (auto simp: frame_rows_def DataFrame_def split: sum.splits)
    also have "\<dots> \<longleftrightarrow> (\<exists>t m. Some t \<in> set (map (\<lambda>r. object_cell r 0) rows)
        \<and> to_datetime pd t = Inl m)"
      by (rule to_datetime_col_raises_iff)
    also have "\<dots> \<longleftrightarrow> (\<exists>r t m. r \<in> set rows \<and> object_cell r 0 = Some t
        \<and> to_datetime pd t = Inl m)"
    proof
      assume "\<exists>t m. Some t \<in> set (map (\<lambda>r. object_cell r 0) rows) \<and> to_datetime pd t = Inl m"
      then obtain t m where "Some t \<in> set (map (\<lambda>r. object_cell r 0) rows)"
        and tm: "to_datetime pd t = Inl m"
        by blast
      then obtain r where "r \<in> set rows" "object_cell r 0 = Some t"
        by auto
      with tm show "\<exists>r t m. r \<in> set rows \<and> object_cell r 0 = Some t \<and> to_datetime pd t = Inl m"
        by blast
    next
      assume "\<exists>r t m. r \<in> set rows \<and> object_cell r 0 = Some t \<and> to_datetime pd t = Inl m"
      then obtain r t m where r: "r \<in> set rows" "object_cell r 0 = Some t"
        and tm: "to_datetime pd t = Inl m"
        by blast
      from r have "Some t \<in> set (map (\<lambda>r. object_cell r 0) rows)"
        by force
      with tm show "\<exists>t m. Some t \<in> set (map (\<lambda>r. object_cell r 0) rows) \<and> to_datetime pd t = Inl m"
        by blast
    qed
    finally show ?thesis using False True by simp
  qed
qed

lemma frame_rows_empty: "frame_rows pd [] = Inr []"
  by (simp add: frame_rows_def DataFrame_def)

lemma frame_flat: "frame_rows example_pandas flat_rows = Inr flat_klines"
  by (simp add: frame_rows_def DataFrame_def data_columns_def flat_rows_def raw_candle_def
      object_cell_def example_pandas_def flat_klines_def candle_def)

lemma frame_short:
  "frame_rows example_pandas short_rows = Inr [candle 2 ''2'', candle 1 ''1'']"
  by (simp add: frame_rows_def DataFrame_def data_columns_def short_rows_def raw_candle_def
      object_cell_def example_pandas_def candle_def)

lemma fetch_flat:
  "fetch_and_analyze_crypto_price example_pandas s 8 (Provider_returns (Result_list flat_rows))
     = Inr (analyze example_pandas 8 flat_klines)"
  by (simp add: fetch_and_analyze_crypto_price_def frame_flat)

lemma fetch_short:
  "fetch_and_analyze_crypto_price example_pandas s 8 (Provider_returns (Result_list short_rows))
     = Inr (analyze example_pandas 8 [candle 2 ''2'', candle 1 ''1''])"
  by (simp add: fetch_and_analyze_crypto_price_def frame_short)

lemma fetch_empty:
  "fetch_and_analyze_crypto_price pd s w (Provider_returns (Result_list []))
     = Inr (analyze pd w [])"
  by (simp add: fetch_and_analyze_crypto_price_def frame_rows_empty)

lemma fetch_raises:
  "fetch_and_analyze_crypto_price pd s w (Provider_raises cause)
     = Inl (ValueError (fetch_message s cause))"
  by (simp add: fetch_and_analyze_crypto_price_def)

lemma Rolling_analyze_empty: "Rolling_Std_4h (analyze pd w []) = []"
  by (simp add: Rolling_analyze Returns_analyze rolling_std_def pct_change_def shift_def
      ffill_def Let_def)

lemma loop_body_flat:
  "loop_body example_pandas b (s, Provider_returns (Result_list flat_rows)) =
     b\<lparr> result := setitem s 0 (result b),
        dfs := setitem s (analyze example_pandas 8 flat_klines) (dfs b) \<rparr>"
  using fetch_flat flat_rolling_last by (rule loop_body_defined)

lemma short_rolling:
  "Rolling_Std_4h (analyze example_pandas 8 [candle 2 ''2'', candle 1 ''1'']) = [None, None]"
  by (simp add: Rolling_analyze Returns_analyze pct_change_def example_pandas_def candle_def
      ffill_def shift_def rolling_std_def calc_std_def window_at_def Let_def)

lemma loop_body_short:
  "loop_body example_pandas b (s, Provider_returns (Result_list short_rows)) = b"
  using fetch_short by (rule loop_body_missing) (simp add: short_rolling iloc_last_def)

lemma loop_body_empty:
  "loop_body pd b (s, Provider_returns (Result_list [])) =
     b\<lparr> st_errors := st_errors b
          @ [fetch_message s ''single positional indexer is out-of-bounds''] \<rparr>"
  using fetch_empty Rolling_analyze_empty by (rule loop_body_no_rows)

subsection \<open>A failing symbol\<close>

text \<open>
  C2. A symbol whose fetch raises leaves the batch as it would be without that symbol:
  the two dictionaries of the whole run are those of the run without it, whatever comes
  before and after it in the list. The messages of the whole run are those of the run
  without it with one more, the failing symbol's, shown after the messages of the
  symbols before it. The chart of the result can still be drawn. The loop body handles
  the raised branch itself, so the run always ends.
\<close>

theorem failing_symbol_is_isolated:
  assumes "fetch_and_analyze_crypto_price pd s 8 reply = Inl e"
  shows "result (fetch_data_and_plot pd (xs @ (s, reply) # ys))
           = result (fetch_data_and_plot pd (xs @ ys)) \<and>
         dfs (fetch_data_and_plot pd (xs @ (s, reply) # ys))
           = dfs (fetch_data_and_plot pd (xs @ ys)) \<and>
         st_errors (fetch_data_and_plot pd (xs @ (s, reply) # ys))
           = take (length (st_errors (for_symbols pd no_batch xs)))
               (st_errors (fetch_data_and_plot pd (xs @ ys)))
             @ fetch_message s (str_of e)
             # drop (length (st_errors (for_symbols pd no_batch xs)))
                 (st_errors (fetch_data_and_plot pd (xs @ ys))) \<and>
         fetch_message s (str_of e)
           \<in> set (st_errors (fetch_data_and_plot pd (xs @ (s, reply) # ys))) \<and>
         (\<exists>chart. plot_data (result (fetch_data_and_plot pd (xs @ (s, reply) # ys))) chart)"
proof -
  let ?b = "for_symbols pd no_batch xs"
  let ?b' = "loop_body pd ?b (s, reply)"
  let ?m = "fetch_message s (str_of e)"
  let ?L = "st_errors ?b"
  let ?R = "st_errors (for_symbols pd no_batch ys)"
  have step: "?b' = ?b\<lparr> st_errors := ?L @ [?m] \<rparr>"
    using assms by (rule loop_body_raises)
  have run: "for_symbols pd no_batch (xs @ (s, reply) # ys) = for_symbols pd ?b' ys"
    by (simp add: for_symbols_append)
  have "result ?b' = result ?b" by (simp add: step)
  then have "result (for_symbols pd ?b' ys) = result (for_symbols pd ?b ys)"
    by (rule result_for_symbols_cong)
  then have r0: "result (for_symbols pd no_batch (xs @ (s, reply) # ys))
      = result (for_symbols pd no_batch (xs @ ys))"
    by (simp add: run for_symbols_append)
  then have r: "result (fetch_data_and_plot pd (xs @ (s, reply) # ys))
      = result (fetch_data_and_plot pd (xs @ ys))"
    by (simp only: result_fetch_data_and_plot)
  have "dfs ?b' = dfs ?b" by (simp add: step)
  then have "dfs (for_symbols pd ?b' ys) = dfs (for_symbols pd ?b ys)"
    by (rule dfs_for_symbols_cong)
  then have d: "dfs (fetch_data_and_plot pd (xs @ (s, reply) # ys))
      = dfs (fetch_data_and_plot pd (xs @ ys))"
    by (simp add: dfs_fetch_data_and_plot run for_symbols_append)
  have "st_errors (for_symbols pd ?b' ys) = st_errors ?b' @ ?R"
    by (rule st_errors_for_symbols)
  then have with_s: "st_errors (for_symbols pd no_batch (xs @ (s, reply) # ys)) = ?L @ ?m # ?R"
    by (simp add: run step)
  have "st_errors (for_symbols pd ?b ys) = ?L @ ?R"
    by (rule st_errors_for_symbols)
  then have without_s: "st_errors (for_symbols pd no_batch (xs @ ys)) = ?L @ ?R"
    by (simp add: for_symbols_append)
  define T where "T = (if result (for_symbols pd no_batch (xs @ ys)) \<noteq> [] then []
      else [''No data available to display.''])"
  have all_without: "st_errors (fetch_data_and_plot pd (xs @ ys)) = ?L @ ?R @ T"
    by (simp add: st_errors_fetch_data_and_plot without_s T_def)
  have all_with: "st_errors (fetch_data_and_plot pd (xs @ (s, reply) # ys)) = ?L @ ?m # ?R @ T"
    by (simp add: st_errors_fetch_data_and_plot with_s r0 T_def)
  have e: "st_errors (fetch_data_and_plot pd (xs @ (s, reply) # ys))
      = take (length ?L) (st_errors (fetch_data_and_plot pd (xs @ ys)))
        @ ?m # drop (length ?L) (st_errors (fetch_data_and_plot pd (xs @ ys)))"
    by (simp add: all_with all_without)
  have m: "?m \<in> set (st_errors (fetch_data_and_plot pd (xs @ (s, reply) # ys)))"
    by (simp add: all_with)
  have c: "\<exists>chart. plot_data (result (fetch_data_and_plot pd (xs @ (s, reply) # ys))) chart"
    by (rule plot_data_total)
  show ?thesis by (intro conjI) (rule r, rule d, rule e, rule m, rule c)
qed

text \<open>
  C2 on the symbols A, B, C, where the request for B raises: A and C are in the result
  and B's failure is the one message of the whole run.
\<close>

theorem failing_symbol_is_isolated_witness:
  "fetch_and_analyze_crypto_price example_pandas ''B'' 8 (Provider_raises ''timed out'')
     = Inl (ValueError ''Error fetching data for B: timed out'') \<and>
   result (fetch_data_and_plot example_pandas
     [(''A'', Provider_returns (Result_list flat_rows)),
      (''B'', Provider_raises ''timed out''),
      (''C'', Provider_returns (Result_list flat_rows))]) = [(''A'', 0), (''C'', 0)] \<and>
   st_errors (fetch_data_and_plot example_pandas
     [(''A'', Provider_returns (Result_list flat_rows)),
      (''B'', Provider_raises ''timed out''),
      (''C'', Provider_returns (Result_list flat_rows))])
     = [''Error fetching data for B: Error fetching data for B: timed out'']"
proof -
  let ?ok = "Provider_returns (Result_list flat_rows)"
  have h: "fetch_and_analyze_crypto_price example_pandas ''B'' 8 (Provider_raises ''timed out'')
      = Inl (ValueError ''Error fetching data for B: timed out'')"
    by (simp add: fetch_raises fetch_message_def)
  have two: "result (fetch_data_and_plot example_pandas [(''A'', ?ok), (''C'', ?ok)])
      = [(''A'', 0), (''C'', 0)]"
    by (simp add: result_fetch_data_and_plot loop_body_flat no_batch_def)
  have before: "st_errors (for_symbols example_pandas no_batch [(''A'', ?ok)]) = []"
    by (simp add: loop_body_flat no_batch_def)
  have without: "st_errors (fetch_data_and_plot example_pandas [(''A'', ?ok), (''C'', ?ok)]) = []"
    by (simp add: st_errors_fetch_data_and_plot loop_body_flat no_batch_def)
  note iso = failing_symbol_is_isolated [OF h, of "[(''A'', ?ok)]" "[(''C'', ?ok)]"]
  have r: "result (fetch_data_and_plot example_pandas
        [(''A'', ?ok), (''B'', Provider_raises ''timed out''), (''C'', ?ok)])
      = result (fetch_data_and_plot example_pandas [(''A'', ?ok), (''C'', ?ok)])"
    using iso by (simp only: append.simps)
  have e: "st_errors (fetch_data_and_plot example_pandas
        [(''A'', ?ok), (''B'', Provider_raises ''timed out''), (''C'', ?ok)])
      = take (length (st_errors (for_symbols example_pandas no_batch [(''A'', ?ok)])))
          (st_errors (fetch_data_and_plot example_pandas [(''A'', ?ok), (''C'', ?ok)]))
        @ fetch_message ''B'' (str_of (ValueError ''Error fetching data for B: timed out''))
        # drop (length (st_errors (for_symbols example_pandas no_batch [(''A'', ?ok)])))
            (st_errors (fetch_data_and_plot example_pandas [(''A'', ?ok), (''C'', ?ok)]))"
    using iso by (simp only: append.simps)
  show ?thesis
    unfolding r e two before without using h by (simp add: fetch_message_def)
qed

subsection \<open>The two dictionaries\<close>

lemma keys_setitem:
  "map fst (setitem k v al) = (if k \<in> set (map fst al) then map fst al else map fst al @ [k])"
  by (induction al) auto

lemma keys_agree_loop_body:
  assumes "map fst (result b) = map fst (dfs b)"
  shows "map fst (result (loop_body pd b c)) = map fst (dfs (loop_body pd b c))"
proof (cases c)
  case (Pair s reply)
  have "map fst (result (loop_body pd b (s, reply))) = map fst (dfs (loop_body pd b (s, reply)))"
  proof (cases pd s reply rule: loop_body_cases)
    case (raises e)
    then show ?thesis using assms by (simp add: loop_body_raises)
  next
    case (no_rows df)
    then show ?thesis using assms by (simp add: loop_body_no_rows)
  next
    case (missing df)
    then show ?thesis using assms by (simp add: loop_body_missing)
  next
    case (defined df v)
    then have "loop_body pd b (s, reply) =
        b\<lparr> result := setitem s v (result b), dfs := setitem s df (dfs b) \<rparr>"
      by (rule loop_body_defined)
    then show ?thesis using assms by (simp add: keys_setitem)
  qed
  then show ?thesis by (simp only: Pair)
qed

lemma keys_agree_for_symbols:
  "map fst (result b) = map fst (dfs b) \<Longrightarrow>
   map fst (result (for_symbols pd b cs)) = map fst (dfs (for_symbols pd b cs))"
proof (induction cs arbitrary: b)
  case Nil
  then show ?case by simp
next
  case (Cons c cs)
  from Cons.prems have "map fst (result (loop_body pd b c)) = map fst (dfs (loop_body pd b c))"
    by (rule keys_agree_loop_body)
  then have "map fst (result (for_symbols pd (loop_body pd b c) cs))
      = map fst (dfs (for_symbols pd (loop_body pd b c) cs))"
    by (rule Cons.IH)
  then show ?case by simp
qed

text \<open>
  C10. After every run the two dictionaries have the same keys, in the same order: a
  symbol has a latest value exactly when its frame is kept.
\<close>

theorem ranking_and_series_keys_agree:
  "map fst (result (fetch_data_and_plot pd cs)) = map fst (dfs (fetch_data_and_plot pd cs))"
proof -
  have "map fst (result no_batch) = map fst (dfs no_batch)"
    by (simp add: no_batch_def)
  then have "map fst (result (for_symbols pd no_batch cs))
      = map fst (dfs (for_symbols pd no_batch cs))"
    by (rule keys_agree_for_symbols)
  then show ?thesis
    by (simp only: result_fetch_data_and_plot dfs_fetch_data_and_plot)
qed

subsection \<open>Which symbols are kept\<close>

lemma set_keys_setitem: "fst ` set (setitem k v al) = insert k (fst ` set al)"
  by (induction al) auto

lemma keys_loop_body:
  "fst ` set (result (loop_body pd b (s, reply))) =
     fst ` set (result b) \<union>
     {s'. s' = s \<and> (\<exists>df v. fetch_and_analyze_crypto_price pd s 8 reply = Inr df \<and>
                           iloc_last (Rolling_Std_4h df) = Inr (Some v))}"
proof (cases pd s reply rule: loop_body_cases)
  case (raises e)
  then show ?thesis by (simp add: loop_body_raises)
next
  case (no_rows df)
  then show ?thesis by (simp add: loop_body_no_rows iloc_last_def)
next
  case (missing df)
  then show ?thesis by (simp add: loop_body_missing)
next
  case (defined df v)
  then have "loop_body pd b (s, reply) =
      b\<lparr> result := setitem s v (result b), dfs := setitem s df (dfs b) \<rparr>"
    by (rule loop_body_defined)
  with defined show ?thesis by (auto simp: set_keys_setitem)
qed

lemma keys_for_symbols:
  "fst ` set (result (for_symbols pd b cs)) =
     fst ` set (result b) \<union>
     {s. \<exists>reply df v. (s, reply) \<in> set cs \<and>
            fetch_and_analyze_crypto_price pd s 8 reply = Inr df \<and>
            iloc_last (Rolling_Std_4h df) = Inr (Some v)}"
proof (induction cs arbitrary: b)
  case Nil
  then show ?case by simp
next
  case (Cons c cs)
  obtain s reply where c: "c = (s, reply)" by (cases c)
  have "fst ` set (result (for_symbols pd (loop_body pd b (s, reply)) cs)) =
      fst ` set (result (loop_body pd b (s, reply))) \<union>
      {s. \<exists>reply df v. (s, reply) \<in> set cs \<and>
            fetch_and_analyze_crypto_price pd s 8 reply = Inr df \<and>
            iloc_last (Rolling_Std_4h df) = Inr (Some v)}"
    by (rule Cons.IH)
  also have "fst ` set (result (loop_body pd b (s, reply))) =
      fst ` set (result b) \<union>
      {s'. s' = s \<and> (\<exists>df v. fetch_and_analyze_crypto_price pd s 8 reply = Inr df \<and>
                            iloc_last (Rolling_Std_4h df) = Inr (Some v))}"
    by (rule keys_loop_body)
  finally show ?case unfolding c by auto
qed

lemma distinct_keys_same_value:
  "distinct (map fst cs) \<Longrightarrow> (k, x) \<in> set cs \<Longrightarrow> (k, y) \<in> set cs \<Longrightarrow> x = y"
  by (induction cs) (auto simp: image_iff)

lemma iloc_last_Some_iff:
  "iloc_last xs = Inr (Some v) \<longleftrightarrow> xs \<noteq> [] \<and> last xs = Some v"
  by (simp add: iloc_last_def)

lemma keys_fetch_data_and_plot:
  "s \<in> fst ` set (result (fetch_data_and_plot pd cs)) \<longleftrightarrow>
     (\<exists>reply df v. (s, reply) \<in> set cs \<and>
        fetch_and_analyze_crypto_price pd s 8 reply = Inr df \<and>
        Rolling_Std_4h df \<noteq> [] \<and> last (Rolling_Std_4h df) = Some v)"
  by (simp add: result_fetch_data_and_plot keys_for_symbols no_batch_def iloc_last_Some_iff)

lemma keys_dfs_fetch_data_and_plot:
  "fst ` set (dfs (fetch_data_and_plot pd cs)) = fst ` set (result (fetch_data_and_plot pd cs))"
proof -
  have "map fst (result (for_symbols pd no_batch cs)) = map fst (dfs (for_symbols pd no_batch cs))"
    by (rule keys_agree_for_symbols) (simp add: no_batch_def)
  then have "set (map fst (result (fetch_data_and_plot pd cs)))
      = set (map fst (dfs (fetch_data_and_plot pd cs)))"
    by (simp only: result_fetch_data_and_plot dfs_fetch_data_and_plot)
  then show ?thesis by (simp only: set_map)
qed

text \<open>
  C4, as the code has it. A symbol is a key of \<open>result\<close>, and equally of \<open>dfs\<close>, exactly
  when one of its requests returned a frame with rows whose last rolling value is a
  number; for a symbol requested once whose frame has rows this is: exactly when the
  last rolling value of its frame is a number. A request whose frame has rows and a
  missing last value changes nothing: no entry in either dictionary and no message. A
  request whose frame has no rows has no last value to read: it adds no entry either,
  but \<open>iloc[-1]\<close> raises and the symbol is shown as an error.
\<close>

theorem kept_iff_some_last_defined:
  "(s \<in> fst ` set (result (fetch_data_and_plot pd cs)) \<longleftrightarrow>
      (\<exists>reply df v. (s, reply) \<in> set cs \<and>
         fetch_and_analyze_crypto_price pd s 8 reply = Inr df \<and>
         Rolling_Std_4h df \<noteq> [] \<and> last (Rolling_Std_4h df) = Some v)) \<and>
   (s \<in> fst ` set (dfs (fetch_data_and_plot pd cs)) \<longleftrightarrow>
      s \<in> fst ` set (result (fetch_data_and_plot pd cs))) \<and>
   (distinct (map fst cs) \<and> (s, reply) \<in> set cs \<and>
      fetch_and_analyze_crypto_price pd s 8 reply = Inr df \<and> Rolling_Std_4h df \<noteq> []
      \<longrightarrow> (s \<in> fst ` set (result (fetch_data_and_plot pd cs))
             \<longleftrightarrow> last (Rolling_Std_4h df) \<noteq> None)) \<and>
   (fetch_and_analyze_crypto_price pd s 8 reply = Inr df \<and> Rolling_Std_4h df \<noteq> [] \<and>
      last (Rolling_Std_4h df) = None
      \<longrightarrow> loop_body pd b (s, reply) = b) \<and>
   (fetch_and_analyze_crypto_price pd s 8 reply = Inr df \<and> Rolling_Std_4h df = []
      \<longrightarrow> loop_body pd b (s, reply) =
            b\<lparr> st_errors := st_errors b
                 @ [fetch_message s ''single positional indexer is out-of-bounds''] \<rparr>)"
proof -
  have once: "s \<in> fst ` set (result (fetch_data_and_plot pd cs))
      \<longleftrightarrow> last (Rolling_Std_4h df) \<noteq> None"
    if d: "distinct (map fst cs)" and m: "(s, reply) \<in> set cs"
      and f: "fetch_and_analyze_crypto_price pd s 8 reply = Inr df"
      and n: "Rolling_Std_4h df \<noteq> []"
  proof
    assume "s \<in> fst ` set (result (fetch_data_and_plot pd cs))"
    then obtain reply' df' v where *: "(s, reply') \<in> set cs"
      "fetch_and_analyze_crypto_price pd s 8 reply' = Inr df'"
      "last (Rolling_Std_4h df') = Some v"
      unfolding keys_fetch_data_and_plot by blast
    from d *(1) m have "reply' = reply" by (rule distinct_keys_same_value)
    with *(2) f have "df' = df" by simp
    with *(3) show "last (Rolling_Std_4h df) \<noteq> None" by simp
  next
    assume "last (Rolling_Std_4h df) \<noteq> None"
    then obtain v where "last (Rolling_Std_4h df) = Some v" by blast
    with m f n show "s \<in> fst ` set (result (fetch_data_and_plot pd cs))"
      unfolding keys_fetch_data_and_plot by blast
  qed
  have filtered: "loop_body pd b (s, reply) = b"
    if f: "fetch_and_analyze_crypto_price pd s 8 reply = Inr df"
      and n: "Rolling_Std_4h df \<noteq> []" and l: "last (Rolling_Std_4h df) = None"
  proof -
    from n l have "iloc_last (Rolling_Std_4h df) = Inr None" by (simp add: iloc_last_def)
    with f show ?thesis by (rule loop_body_missing)
  qed
  have no_rows: "loop_body pd b (s, reply) =
      b\<lparr> st_errors := st_errors b
           @ [fetch_message s ''single positional indexer is out-of-bounds''] \<rparr>"
    if "fetch_and_analyze_crypto_price pd s 8 reply = Inr df" and "Rolling_Std_4h df = []"
    using that by (rule loop_body_no_rows)
  show ?thesis
  proof (intro conjI impI)
    show "s \<in> fst ` set (result (fetch_data_and_plot pd cs)) \<longleftrightarrow>
      (\<exists>reply df v. (s, reply) \<in> set cs \<and>
         fetch_and_analyze_crypto_price pd s 8 reply = Inr df \<and>
         Rolling_Std_4h df \<noteq> [] \<and> last (Rolling_Std_4h df) = Some v)"
      by (rule keys_fetch_data_and_plot)
    show "s \<in> fst ` set (dfs (fetch_data_and_plot pd cs)) \<longleftrightarrow>
      s \<in> fst ` set (result (fetch_data_and_plot pd cs))"
      by (simp only: keys_dfs_fetch_data_and_plot)
  next
    assume "distinct (map fst cs) \<and> (s, reply) \<in> set cs \<and>
      fetch_and_analyze_crypto_price pd s 8 reply = Inr df \<and> Rolling_Std_4h df \<noteq> []"
    then show "s \<in> fst ` set (result (fetch_data_and_plot pd cs))
        \<longleftrightarrow> last (Rolling_Std_4h df) \<noteq> None"
      using once by blast
  next
    assume "fetch_and_analyze_crypto_price pd s 8 reply = Inr df \<and> Rolling_Std_4h df \<noteq> [] \<and>
      last (Rolling_Std_4h df) = None"
    then show "loop_body pd b (s, reply) = b"
      using filtered by blast
  next
    assume "fetch_and_analyze_crypto_price pd s 8 reply = Inr df \<and> Rolling_Std_4h df = []"
    then show "loop_body pd b (s, reply) =
      b\<lparr> st_errors := st_errors b
           @ [fetch_message s ''single positional indexer is out-of-bounds''] \<rparr>"
      using no_rows by blast
  qed
qed

text \<open>
  C4 on the symbols A, with nine rows, and S, with two: A has a last rolling value and
  is kept, S has rows but no last value and is dropped without a message; and on E,
  whose list is empty, which is dropped with a message.
\<close>

theorem kept_iff_some_last_defined_witness:
  "distinct (map fst [(''A'', Provider_returns (Result_list flat_rows)),
                      (''S'', Provider_returns (Result_list short_rows))]) \<and>
   last (Rolling_Std_4h (analyze example_pandas 8 flat_klines)) = Some 0 \<and>
   ''A'' \<in> fst ` set (result (fetch_data_and_plot example_pandas
      [(''A'', Provider_returns (Result_list flat_rows)),
       (''S'', Provider_returns (Result_list short_rows))])) \<and>
   last (Rolling_Std_4h (analyze example_pandas 8 [candle 2 ''2'', candle 1 ''1''])) = None \<and>
   ''S'' \<notin> fst ` set (result (fetch_data_and_plot example_pandas
      [(''A'', Provider_returns (Result_list flat_rows)),
       (''S'', Provider_returns (Result_list short_rows))])) \<and>
   loop_body example_pandas no_batch (''S'', Provider_returns (Result_list short_rows))
     = no_batch \<and>
   Rolling_Std_4h (analyze example_pandas 8 []) = [] \<and>
   loop_body example_pandas no_batch (''E'', Provider_returns (Result_list [])) =
     no_batch\<lparr> st_errors := st_errors no_batch
       @ [fetch_message ''E'' ''single positional indexer is out-of-bounds''] \<rparr>"
proof -
  let ?cs = "[(''A'', Provider_returns (Result_list flat_rows)),
              (''S'', Provider_returns (Result_list short_rows))]"
  let ?flat = "analyze example_pandas 8 flat_klines"
  let ?short = "analyze example_pandas 8 [candle 2 ''2'', candle 1 ''1'']"
  have d: "distinct (map fst ?cs)" by simp
  have inA: "(''A'', Provider_returns (Result_list flat_rows)) \<in> set ?cs" by simp
  have inS: "(''S'', Provider_returns (Result_list short_rows)) \<in> set ?cs" by simp
  have lA: "Rolling_Std_4h ?flat \<noteq> []" "last (Rolling_Std_4h ?flat) = Some 0"
    using flat_rolling_last by (auto simp: iloc_last_def split: if_splits)
  have lS: "Rolling_Std_4h ?short \<noteq> []" "last (Rolling_Std_4h ?short) = None"
    by (simp_all add: short_rolling)
  have lE: "Rolling_Std_4h (analyze example_pandas 8 []) = []"
    by (rule Rolling_analyze_empty)
  have a: "''A'' \<in> fst ` set (result (fetch_data_and_plot example_pandas ?cs))"
    using kept_iff_some_last_defined
      [of "''A''" example_pandas ?cs "Provider_returns (Result_list flat_rows)" ?flat no_batch]
      d inA fetch_flat [of "''A''"] lA
    by blast
  have s: "''S'' \<notin> fst ` set (result (fetch_data_and_plot example_pandas ?cs))
      \<and> loop_body example_pandas no_batch (''S'', Provider_returns (Result_list short_rows))
          = no_batch"
    using kept_iff_some_last_defined
      [of "''S''" example_pandas ?cs "Provider_returns (Result_list short_rows)" ?short no_batch]
      d inS fetch_short [of "''S''"] lS
    by blast
  have e: "loop_body example_pandas no_batch (''E'', Provider_returns (Result_list [])) =
      no_batch\<lparr> st_errors := st_errors no_batch
        @ [fetch_message ''E'' ''single positional indexer is out-of-bounds''] \<rparr>"
    using kept_iff_some_last_defined
      [of "''E''" example_pandas "[]" "Provider_returns (Result_list [])"
        "analyze example_pandas 8 []" no_batch]
      fetch_empty [of example_pandas "''E''" 8] lE
    by blast
  from d lA(2) a lS(2) s lE e show ?thesis by (intro conjI) simp_all
qed

text \<open>
  C4 as the specification words it fails. The fetch of E returns a frame, without rows;
  E is left out, but as an error, with a message. And A is requested twice: the second
  request returns a frame whose last rolling value is missing, yet A is ranked, with the
  value of the first request.
\<close>

theorem filtered_not_error_counterexample:
  "fetch_and_analyze_crypto_price example_pandas ''E'' 8 (Provider_returns (Result_list []))
     = Inr (analyze example_pandas 8 []) \<and>
   fetch_data_and_plot example_pandas [(''E'', Provider_returns (Result_list []))] =
     \<lparr> result = [], dfs = [],
       st_errors = [''Error fetching data for E: single positional indexer is out-of-bounds'',
                    ''No data available to display.''] \<rparr> \<and>
   fetch_and_analyze_crypto_price example_pandas ''A'' 8 (Provider_returns (Result_list short_rows))
     = Inr (analyze example_pandas 8 [candle 2 ''2'', candle 1 ''1'']) \<and>
   last (Rolling_Std_4h (analyze example_pandas 8 [candle 2 ''2'', candle 1 ''1''])) = None \<and>
   result (fetch_data_and_plot example_pandas
     [(''A'', Provider_returns (Result_list flat_rows)),
      (''A'', Provider_returns (Result_list short_rows))]) = [(''A'', 0)]"
  by (simp add: fetch_empty fetch_short short_rolling fetch_data_and_plot_def Let_def
      loop_body_empty loop_body_flat loop_body_short no_batch_def fetch_message_def)

subsection \<open>When the fetch raises\<close>

lemma fetch_list:
  "fetch_and_analyze_crypto_price pd s w (Provider_returns (Result_list rows)) =
     (case frame_rows pd rows of
        Inl e \<Rightarrow> Inl (ValueError (fetch_message s (str_of e)))
      | Inr ks \<Rightarrow> Inr (analyze pd w ks))"
  by (simp add: fetch_and_analyze_crypto_price_def split: sum.splits)

lemma fetch_raises_ValueError:
  "case fetch_and_analyze_crypto_price pd s w reply of
     Inl e \<Rightarrow> \<exists>cause. e = ValueError (fetch_message s cause)
   | Inr df \<Rightarrow> True"
  by (auto simp: fetch_and_analyze_crypto_price_def split: sum.splits)

text \<open>
  C7, as the code has it. The fetch raises exactly when the provider call raises, or
  the answer lacks \<open>result\<close> or \<open>result.list\<close>, or the list has rows that cannot be read:
  its longest row has not seven fields, or one of its timestamps cannot be converted.
  What it raises is a \<open>ValueError\<close> whose text holds the symbol and the cause. The
  empty list is none of these: it gives a frame without rows; the loop then fails on
  \<open>iloc[-1]\<close>, shows that error for the symbol and adds nothing to the dictionaries.
\<close>

theorem fetch_raises_iff:
  "((\<exists>e. fetch_and_analyze_crypto_price pd s w reply = Inl e) \<longleftrightarrow>
      (\<exists>cause. reply = Provider_raises cause) \<or> reply = Provider_returns No_result
        \<or> reply = Provider_returns Result_no_list
        \<or> (\<exists>rows. reply = Provider_returns (Result_list rows) \<and> rows \<noteq> [] \<and>
              (data_columns rows \<noteq> 7 \<or>
               (\<exists>r t m. r \<in> set rows \<and> object_cell r 0 = Some t
                  \<and> to_datetime pd t = Inl m)))) \<and>
   (case fetch_and_analyze_crypto_price pd s w reply of
      Inl e \<Rightarrow> \<exists>cause. e = ValueError (fetch_message s cause)
    | Inr df \<Rightarrow> True) \<and>
   fetch_and_analyze_crypto_price pd s w (Provider_raises cause)
     = Inl (ValueError (fetch_message s cause)) \<and>
   fetch_and_analyze_crypto_price pd s w (Provider_returns No_result)
     = Inl (ValueError (fetch_message s ''No data returned from API.'')) \<and>
   fetch_and_analyze_crypto_price pd s w (Provider_returns Result_no_list)
     = Inl (ValueError (fetch_message s ''No data returned from API.'')) \<and>
   fetch_and_analyze_crypto_price pd s w (Provider_returns (Result_list []))
     = Inr (analyze pd w []) \<and>
   Index (analyze pd w []) = [] \<and>
   loop_body pd b (s, Provider_returns (Result_list [])) =
     b\<lparr> st_errors := st_errors b
          @ [fetch_message s ''single positional indexer is out-of-bounds''] \<rparr>"
proof -
  have iff: "(\<exists>e. fetch_and_analyze_crypto_price pd s w reply = Inl e) \<longleftrightarrow>
      (\<exists>cause. reply = Provider_raises cause) \<or> reply = Provider_returns No_result
        \<or> reply = Provider_returns Result_no_list
        \<or> (\<exists>rows. reply = Provider_returns (Result_list rows) \<and> rows \<noteq> [] \<and>
              (data_columns rows \<noteq> 7 \<or>
               (\<exists>r t m. r \<in> set rows \<and> object_cell r 0 = Some t
                  \<and> to_datetime pd t = Inl m)))"
  proof (cases reply)
    case (Provider_raises c)
    then show ?thesis by (simp add: fetch_raises)
  next
    case (Provider_returns resp)
    show ?thesis
    proof (cases resp)
      case No_result
      with Provider_returns show ?thesis by (simp add: fetch_and_analyze_crypto_price_def)
    next
      case Result_no_list
      with Provider_returns show ?thesis by (simp add: fetch_and_analyze_crypto_price_def)
    next
      case (Result_list rows)
      have "(\<exists>e. fetch_and_analyze_crypto_price pd s w (Provider_returns (Result_list rows)) = Inl e)
          \<longleftrightarrow> (\<exists>e. frame_rows pd rows = Inl e)"
        by (simp add: fetch_list split: sum.splits)
      then show ?thesis
        unfolding Provider_returns Result_list frame_rows_raises_iff by simp
    qed
  qed
  show ?thesis
    by (intro conjI, rule iff, rule fetch_raises_ValueError)
      (simp_all add: fetch_and_analyze_crypto_price_def frame_rows_empty Index_analyze
        loop_body_empty)
qed

text \<open>
  C7 on a list of seven-field rows one of whose timestamps is no number, and on a list
  whose only row has two fields: both fetches raise.
\<close>

theorem fetch_raises_iff_witness:
  "data_columns [raw_candle ''2'' ''2'', raw_candle ''soon'' ''1''] = 7 \<and>
   object_cell (raw_candle ''soon'' ''1'') 0 = Some ''soon'' \<and>
   to_datetime example_pandas ''soon'' = Inl ''cannot convert soon'' \<and>
   (\<exists>e. fetch_and_analyze_crypto_price example_pandas ''BTCUSDT'' 8
      (Provider_returns (Result_list [raw_candle ''2'' ''2'', raw_candle ''soon'' ''1''])) = Inl e) \<and>
   data_columns [[''1'', ''1'']] = 2 \<and>
   (\<exists>e. fetch_and_analyze_crypto_price example_pandas ''BTCUSDT'' 8
      (Provider_returns (Result_list [[''1'', ''1'']])) = Inl e)"
proof -
  let ?bad = "[raw_candle ''2'' ''2'', raw_candle ''soon'' ''1'']"
  have w: "data_columns ?bad = 7"
    by (simp add: data_columns_def raw_candle_def)
  have c: "object_cell (raw_candle ''soon'' ''1'') 0 = Some ''soon''"
    by (simp add: object_cell_def raw_candle_def)
  have t: "to_datetime example_pandas ''soon'' = Inl ''cannot convert soon''"
    by (simp add: example_pandas_def)
  have m: "raw_candle ''soon'' ''1'' \<in> set ?bad" by simp
  have n: "data_columns [[''1'', ''1'']] = 2"
    by (simp add: data_columns_def)
  have "\<exists>e. fetch_and_analyze_crypto_price example_pandas ''BTCUSDT'' 8
      (Provider_returns (Result_list ?bad)) = Inl e"
    using fetch_raises_iff [of example_pandas "''BTCUSDT''" 8 "Provider_returns (Result_list ?bad)"]
      w c t m
    by blast
  moreover have "\<exists>e. fetch_and_analyze_crypto_price example_pandas ''BTCUSDT'' 8
      (Provider_returns (Result_list [[''1'', ''1'']])) = Inl e"
    using fetch_raises_iff
      [of example_pandas "''BTCUSDT''" 8 "Provider_returns (Result_list [[''1'', ''1'']])"] n
    by auto
  ultimately show ?thesis using w c t n by blast
qed

text \<open>
  C7 as the specification words it fails: on an empty \<open>result.list\<close> the fetch returns
  a frame and raises nothing.
\<close>

theorem empty_list_raises_counterexample:
  "fetch_and_analyze_crypto_price example_pandas ''BTCUSDT'' 8 (Provider_returns (Result_list []))
     = Inr (analyze example_pandas 8 [])"
  by (rule fetch_empty)

subsection \<open>The bar chart\<close>

lemma col_max_Max: "vs \<noteq> [] \<Longrightarrow> col_max vs = Some (Max (set vs))"
proof (cases vs)
  case (Cons a as)
  then show ?thesis using Max.set_eq_fold [of a as] by simp
qed simp

lemma col_min_Min: "vs \<noteq> [] \<Longrightarrow> col_min vs = Some (Min (set vs))"
proof (cases vs)
  case (Cons a as)
  then show ?thesis using Min.set_eq_fold [of a as] by simp
qed simp

lemma add_color_row:
  assumes "(s, v, c) \<in> set (add_color rows)"
  shows "(s, v) \<in> set rows \<and>
    c = (if Max (snd ` set rows) = Min (snd ` set rows) then None
         else Some ((v - Min (snd ` set rows)) / (Max (snd ` set rows) - Min (snd ` set rows))))"
proof -
  let ?vs = "map snd rows"
  from assms have mem: "(s, v) \<in> set rows"
    and c: "c = cell_div (cell_minus (Some v) (col_min ?vs)) (cell_minus (col_max ?vs) (col_min ?vs))"
    by (auto simp: add_color_def Let_def)
  from mem have "?vs \<noteq> []" by auto
  then have "col_max ?vs = Some (Max (snd ` set rows))" "col_min ?vs = Some (Min (snd ` set rows))"
    by (simp_all add: col_max_Max col_min_Min)
  with c mem show ?thesis by simp
qed

lemma plot_data_rows:
  assumes "plot_data data chart"
  shows "mset (map (\<lambda>(s, v, c). (s, v)) chart) = mset data"
    and "sorted_wrt (\<lambda>a b. snd b \<le> snd a) (map (\<lambda>(s, v, c). (s, v)) chart)"
    and "chart = add_color (map (\<lambda>(s, v, c). (s, v)) chart)"
  using assms by (simp_all add: plot_data_def sort_values_def)

text \<open>
  C6, as the code has it. The colour of a row is \<open>(v - min) / (max - min)\<close> when the
  largest and the smallest value differ; when they are equal (a single row too) the
  division is by zero, nothing is raised, and the colour of every row is missing.
\<close>

theorem color_missing_on_flat_range:
  assumes "plot_data data chart" and "(s, v, c) \<in> set chart"
  shows "c = (if Max (snd ` set data) = Min (snd ` set data) then None
              else Some ((v - Min (snd ` set data)) / (Max (snd ` set data) - Min (snd ` set data))))"
proof -
  let ?rows = "map (\<lambda>(s, v, c). (s, v)) chart"
  have "set ?rows = set data"
    using plot_data_rows(1) [OF assms(1)] by (rule mset_eq_setD)
  moreover have "(s, v, c) \<in> set (add_color ?rows)"
    using plot_data_rows(3) [OF assms(1)] assms(2) by simp
  ultimately show ?thesis
    using add_color_row [of s v c ?rows] by simp
qed

text \<open>C6 on three rows with two different values.\<close>

theorem color_missing_on_flat_range_witness:
  "plot_data [(''X'', 2 / 100), (''Y'', 5 / 100), (''Z'', 2 / 100)]
     [(''Y'', 5 / 100, Some 1), (''X'', 2 / 100, Some 0), (''Z'', 2 / 100, Some 0)] \<and>
   (''Y'', 5 / 100, Some 1) \<in>
     set [(''Y'', 5 / 100, Some 1), (''X'', 2 / 100, Some 0), (''Z'', 2 / 100, Some (0::real))] \<and>
   Some (1::real) =
     (if Max (snd ` set [(''X'', 2 / 100), (''Y'', 5 / 100), (''Z'', 2 / 100 :: real)])
         = Min (snd ` set [(''X'', 2 / 100), (''Y'', 5 / 100), (''Z'', 2 / 100 :: real)])
      then None
      else Some ((5 / 100 - Min (snd ` set [(''X'', 2 / 100), (''Y'', 5 / 100), (''Z'', 2 / 100 :: real)]))
           / (Max (snd ` set [(''X'', 2 / 100), (''Y'', 5 / 100), (''Z'', 2 / 100 :: real)])
              - Min (snd ` set [(''X'', 2 / 100), (''Y'', 5 / 100), (''Z'', 2 / 100 :: real)]))))"
proof -
  have p: "plot_data [(''X'', 2 / 100), (''Y'', 5 / 100), (''Z'', 2 / 100)]
     [(''Y'', 5 / 100, Some 1), (''X'', 2 / 100, Some 0), (''Z'', 2 / 100, Some 0)]"
    by (simp add: plot_data_def sort_values_def add_color_def)
  have m: "(''Y'', 5 / 100, Some 1) \<in>
     set [(''Y'', 5 / 100, Some 1), (''X'', 2 / 100, Some 0), (''Z'', 2 / 100, Some (0::real))]"
    by simp
  from p m color_missing_on_flat_range [OF p m] show ?thesis by blast
qed

text \<open>
  C6 as the specification words it fails: with all values equal, and with a single row,
  the colour is missing, not 0.5.
\<close>

theorem midpoint_counterexample:
  "plot_data [(''A'', 1 / 100), (''B'', 1 / 100)]
     [(''A'', 1 / 100, None), (''B'', 1 / 100, None)] \<and>
   add_color [(''X'', 1 / 100)] = [(''X'', 1 / 100, None)]"
  by (simp add: plot_data_def sort_values_def add_color_def)

text \<open>
  The sort leaves no choice when the values are pairwise different: two outcomes of
  \<open>sort_values\<close> on the same rows are then the same list.
\<close>

lemma descending_distinct_unique:
  fixes xs ys :: "real list"
  assumes "sorted_wrt (\<lambda>a b. b \<le> a) xs" and "sorted_wrt (\<lambda>a b. b \<le> a) ys"
    and "distinct xs" and "mset xs = mset ys"
  shows "xs = ys"
proof -
  have dy: "distinct ys"
    using mset_eq_imp_distinct_iff [OF assms(4)] assms(3) by simp
  have "rev xs = rev ys"
  proof (rule sorted_distinct_set_unique)
    show "sorted (rev xs)" using assms(1) by (simp add: sorted_wrt_rev)
    show "sorted (rev ys)" using assms(2) by (simp add: sorted_wrt_rev)
    show "distinct (rev xs)" using assms(3) by simp
    show "distinct (rev ys)" using dy by simp
    show "set (rev xs) = set (rev ys)" using mset_eq_setD [OF assms(4)] by simp
  qed
  then show ?thesis by simp
qed

lemma sort_values_unique:
  assumes "sort_values data rows" and "sort_values data rows'" and "distinct (map snd data)"
  shows "rows' = rows"
proof -
  have m: "mset rows = mset data" "mset rows' = mset data"
    using assms(1,2) by (simp_all add: sort_values_def)
  have s: "sorted_wrt (\<lambda>a b. b \<le> a) (map snd rows)" "sorted_wrt (\<lambda>a b. b \<le> a) (map snd rows')"
    using assms(1,2) by (simp_all add: sort_values_def sorted_wrt_map)
  have mm: "mset (map snd rows) = mset (map snd data)" "mset (map snd rows') = mset (map snd data)"
    using m by simp_all
  have "distinct (map snd rows)"
    using mset_eq_imp_distinct_iff [OF mm(1)] assms(3) by simp
  moreover have "mset (map snd rows) = mset (map snd rows')"
    using mm by simp
  ultimately have vals: "map snd rows = map snd rows'"
    using s by (intro descending_distinct_unique)
  have "inj_on snd (set data)"
    using assms(3) by (simp add: distinct_map)
  moreover have "set rows = set data" "set rows' = set data"
    using mset_eq_setD [OF m(1)] mset_eq_setD [OF m(2)] by simp_all
  ultimately have "inj_on snd (set rows' \<union> set rows)" by simp
  moreover have "map snd rows' = map snd rows" using vals by simp
  ultimately show ?thesis by (rule map_inj_on [rotated])
qed

end
